theory Spec2Isabelle
  imports Complex_Main "HOL-Library.Log_Nat"
begin

section \<open>Go values shared by every package\<close>

text \<open>
  A \<^verbatim>\<open>time.Time\<close> is modelled by its distance from the epoch in nanoseconds, a
  \<^verbatim>\<open>time.Duration\<close> by a number of nanoseconds. Calls to the structured logger and
  to the metrics collector have no effect on any result and are left out.
\<close>

type_synonym time = int

definition Second :: int where
  "Second = 1000000000"

text \<open>
  Errors. The sentinels of \<^verbatim>\<open>pkg/errors\<close> and \<^verbatim>\<open>sql.ErrNoRows\<close> are constructors of
  their own, because the code compares them by identity. \<open>Errorf msg\<close> is any other
  error value with that message (\<^verbatim>\<open>fmt.Errorf\<close> without \<^verbatim>\<open>%w\<close>, a transport
  error of the HTTP client, a decoding error). \<open>Wrapf ctx e\<close> is
  \<^verbatim>\<open>fmt.Errorf("<ctx>: %w", e)\<close>.
\<close>

datatype error =
    ErrUserNotFound
  | ErrUserAlreadyExists
  | ErrInvalidCredentials
  | ErrUnauthorized
  | ErrInternalServer
  | SqlErrNoRows
  | Errorf string
  | Wrapf string error

fun Error :: "error \<Rightarrow> string" where
  "Error ErrUserNotFound = ''user not found''"
| "Error ErrUserAlreadyExists = ''user already exists''"
| "Error ErrInvalidCredentials = ''invalid credentials''"
| "Error ErrUnauthorized = ''unauthorized''"
| "Error ErrInternalServer = ''internal server error''"
| "Error SqlErrNoRows = ''sql: no rows in result set''"
| "Error (Errorf msg) = msg"
| "Error (Wrapf ctx e) = ctx @ '': '' @ Error e"

text \<open>\<^verbatim>\<open>errors.Is(err, ErrUserNotFound)\<close>: follow the chain of wrapped errors.\<close>

fun IsUserNotFound :: "error \<Rightarrow> bool" where
  "IsUserNotFound (Wrapf ctx e) = IsUserNotFound e"
| "IsUserNotFound e = (e = ErrUserNotFound)"

text \<open>Decimal rendering of an integer, as \<^verbatim>\<open>%d\<close> and \<^verbatim>\<open>strconv.Itoa\<close> print it.\<close>

fun digits :: "nat \<Rightarrow> string" where
  "digits n = (if n < 10 then [''0123456789'' ! n]
               else digits (n div 10) @ [''0123456789'' ! (n mod 10)])"

declare digits.simps [simp del]

definition itoa :: "int \<Rightarrow> string" where
  "itoa i = (if i < 0 then ''-'' @ digits (nat (- i)) else digits (nat i))"

text \<open>
  Conversion of a \<^verbatim>\<open>float64\<close> to \<^verbatim>\<open>int\<close> or \<^verbatim>\<open>int64\<close>, both of 64 bits, truncates
  toward zero. When the truncated value is not an \<^verbatim>\<open>int64\<close>, Go leaves the result to the
  implementation; the conversion instruction of amd64 yields the smallest \<^verbatim>\<open>int64\<close>, and
  that is the value taken here.
\<close>

definition go_int :: "real \<Rightarrow> int" where
  "go_int x =
     (let t = (if 0 \<le> x then \<lfloor>x\<rfloor> else \<lceil>x\<rceil>)
      in if - (2 ^ 63) \<le> t \<and> t < 2 ^ 63 then t else - (2 ^ 63))"

text \<open>Arithmetic on \<^verbatim>\<open>int64\<close> wraps around.\<close>

definition wrap64 :: "int \<Rightarrow> int" where
  "wrap64 i = (i + 2 ^ 63) mod 2 ^ 64 - 2 ^ 63"

subsection \<open>\<^verbatim>\<open>float64\<close> arithmetic\<close>

text \<open>
  A finite \<^verbatim>\<open>float64\<close> is the number it denotes. An arithmetic operation returns the
  exact result rounded to the nearest number with a 53-bit significand, a tie to the one
  with an even significand (IEEE-754 binary64, round to nearest even). Below the
  smallest normal number the spacing stays that of the subnormals; overflow to infinity
  and NaN are outside the model.

  \<open>ilog2 y\<close> is the integer \<open>t\<close> with \<open>2 ^ t \<le> y < 2 ^ (t + 1)\<close>, for positive \<open>y\<close>.
\<close>

definition round_half_even :: "real \<Rightarrow> int" where
  "round_half_even y =
     (let f = \<lfloor>y\<rfloor>; d = y - of_int f
      in if d < 1 / 2 then f else if 1 / 2 < d then f + 1 else if even f then f else f + 1)"

definition pow2 :: "int \<Rightarrow> real" where
  "pow2 t = (if 0 \<le> t then 2 ^ nat t else 1 / 2 ^ nat (- t))"

definition ilog2 :: "real \<Rightarrow> int" where
  "ilog2 y =
     (if 1 \<le> y then int (floorlog 2 (nat \<lfloor>y\<rfloor>)) - 1
      else - int (floorlog 2 (nat (\<lceil>1 / y\<rceil> - 1))))"

definition float64_round :: "real \<Rightarrow> real" where
  "float64_round x =
     (if x = 0 then 0
      else (let e = max (ilog2 \<bar>x\<bar> - 52) (- 1074)
            in of_int (round_half_even (x / pow2 e)) * pow2 e))"

definition float64_mul :: "real \<Rightarrow> real \<Rightarrow> real" where
  "float64_mul x y = float64_round (x * y)"

definition float64_div :: "real \<Rightarrow> real \<Rightarrow> real" where
  "float64_div x y = float64_round (x / y)"

subsection \<open>Decoded JSON\<close>

text \<open>
  The values \<^verbatim>\<open>encoding/json\<close> produces when it decodes into
  \<^verbatim>\<open>map[string]interface{}\<close>: \<^verbatim>\<open>nil\<close>, \<^verbatim>\<open>bool\<close>, \<^verbatim>\<open>float64\<close>, \<^verbatim>\<open>string\<close>,
  \<^verbatim>\<open>[]interface{}\<close> and \<^verbatim>\<open>map[string]interface{}\<close>. An object is an association
  list read with \<open>map_of\<close>. The same type stands for the values handed to
  \<^verbatim>\<open>json.Marshal\<close>.
\<close>

datatype json =
    JNull
  | JBool bool
  | JNumber (number_of: real)
  | JString (string_of: string)
  | JArray (elements: "json list")
  | JObject (members: "(string \<times> json) list")

text \<open>Indexing a Go map: a missing key yields the zero value, \<^verbatim>\<open>nil\<close>.\<close>

definition index :: "(string \<times> json) list \<Rightarrow> string \<Rightarrow> json" where
  "index m k = (case map_of m k of None \<Rightarrow> JNull | Some v \<Rightarrow> v)"

text \<open>
  A function of the program either panics or returns. The two run-time panics that occur
  in the adapters are the failed single-value type assertion and the slice index out of
  range.
\<close>

datatype panic = TypeAssertionPanic | IndexOutOfRangePanic

datatype 'a outcome = Panic panic | Return 'a

fun bind :: "'a outcome \<Rightarrow> ('a \<Rightarrow> 'b outcome) \<Rightarrow> 'b outcome" where
  "bind (Panic p) f = Panic p"
| "bind (Return x) f = f x"

text \<open>The single-value type assertions \<^verbatim>\<open>v.(T)\<close>.\<close>

fun assert_string :: "json \<Rightarrow> string outcome" where
  "assert_string (JString s) = Return s"
| "assert_string v = Panic TypeAssertionPanic"

fun assert_float64 :: "json \<Rightarrow> real outcome" where
  "assert_float64 (JNumber x) = Return x"
| "assert_float64 v = Panic TypeAssertionPanic"

fun assert_map :: "json \<Rightarrow> (string \<times> json) list outcome" where
  "assert_map (JObject m) = Return m"
| "assert_map v = Panic TypeAssertionPanic"

fun assert_slice :: "json \<Rightarrow> json list outcome" where
  "assert_slice (JArray xs) = Return xs"
| "assert_slice v = Panic TypeAssertionPanic"

text \<open>\<^verbatim>\<open>xs[0]\<close> on a slice.\<close>

fun first_elem :: "json list \<Rightarrow> json outcome" where
  "first_elem [] = Panic IndexOutOfRangePanic"
| "first_elem (x # xs) = Return x"

section \<open>Entities (\<^verbatim>\<open>internal/domain/entity\<close>)\<close>

record User =
  ID :: int
  Username :: string
  Email :: string
  Password :: string
  CreatedAt :: time
  UpdatedAt :: time

record LoginResponse =
  lr_Token :: string
  lr_User :: User

record PushNotificationRequest =
  DeviceTokens :: "string list"
  push_Title :: string
  push_Body :: string
  push_Data :: "(string \<times> json) list"

record PushNotificationResponse =
  pnr_ID :: string
  pnr_Status :: string
  pnr_SentAt :: time
  SuccessCount :: int
  FailureCount :: int

section \<open>Outward JSON of a user\<close>

text \<open>
  \<^verbatim>\<open>json.Marshal\<close> of a struct visits the exported fields in declaration order. A field
  tagged \<^verbatim>\<open>json:"-"\<close> is skipped; a field tagged \<^verbatim>\<open>json:"name"\<close> is written under that
  key; a field tagged \<^verbatim>\<open>json:"name,omitempty"\<close> is written unless its Go value is empty
  (a nil interface, an empty string). A struct is handed to the encoder as the list of its
  fields, each with its tag as written in the source; for an \<^verbatim>\<open>omitempty\<close> field the
  list records whether the Go value is empty.
\<close>

datatype struct_field =
    Field string json
  | FieldOmitEmpty string bool json
  | FieldDash json

fun marshal_fields :: "struct_field list \<Rightarrow> (string \<times> json) list" where
  "marshal_fields [] = []"
| "marshal_fields (Field name v # fs) = (name, v) # marshal_fields fs"
| "marshal_fields (FieldOmitEmpty name is_empty v # fs) =
     (if is_empty then marshal_fields fs else (name, v) # marshal_fields fs)"
| "marshal_fields (FieldDash v # fs) = marshal_fields fs"

definition marshal_struct :: "struct_field list \<Rightarrow> json" where
  "marshal_struct fs = JObject (marshal_fields fs)"

text \<open>
  The struct \<^verbatim>\<open>entity.User\<close> with its tags. A \<^verbatim>\<open>time.Time\<close> is encoded as a string in
  RFC 3339 format; the formatter \<open>rfc3339\<close> belongs to the standard library and is a
  parameter.
\<close>

definition User_fields :: "(time \<Rightarrow> string) \<Rightarrow> User \<Rightarrow> struct_field list" where
  "User_fields rfc3339 u =
     [Field ''id'' (JNumber (of_int (ID u))),
      Field ''username'' (JString (Username u)),
      Field ''email'' (JString (Email u)),
      FieldDash (JString (Password u)),
      Field ''created_at'' (JString (rfc3339 (CreatedAt u))),
      Field ''updated_at'' (JString (rfc3339 (UpdatedAt u)))]"

definition User_json :: "(time \<Rightarrow> string) \<Rightarrow> User \<Rightarrow> json" where
  "User_json rfc3339 u = marshal_struct (User_fields rfc3339 u)"

text \<open>\<^verbatim>\<open>entity.LoginResponse\<close>: the token and a pointer to the user.\<close>

definition LoginResponse_json :: "(time \<Rightarrow> string) \<Rightarrow> LoginResponse \<Rightarrow> json" where
  "LoginResponse_json rfc3339 r =
     marshal_struct
       [Field ''token'' (JString (lr_Token r)),
        Field ''user'' (User_json rfc3339 (lr_User r))]"

text \<open>
  \<^verbatim>\<open>response.Success\<close> of \<^verbatim>\<open>pkg/response\<close> writes the envelope
  \<^verbatim>\<open>Response{Success: true, Message: message, Data: data}\<close>. \<^verbatim>\<open>Data\<close> is an interface
  tagged \<^verbatim>\<open>omitempty\<close>, left out when it is nil; \<^verbatim>\<open>Error\<close> is a string tagged
  \<^verbatim>\<open>omitempty\<close> and is empty here.
\<close>

definition Success_json :: "string \<Rightarrow> json \<Rightarrow> json" where
  "Success_json message data =
     marshal_struct
       [Field ''success'' (JBool True),
        Field ''message'' (JString message),
        FieldOmitEmpty ''data'' (data = JNull) data,
        FieldOmitEmpty ''error'' True (JString [])]"

text \<open>The bodies written by the handlers \<^verbatim>\<open>GetProfile\<close> and \<^verbatim>\<open>Login\<close> on success.\<close>

definition GetProfile_body :: "(time \<Rightarrow> string) \<Rightarrow> User \<Rightarrow> json" where
  "GetProfile_body rfc3339 u =
     Success_json ''Profile retrieved successfully'' (User_json rfc3339 u)"

definition Login_body :: "(time \<Rightarrow> string) \<Rightarrow> LoginResponse \<Rightarrow> json" where
  "Login_body rfc3339 r = Success_json ''Login successful'' (LoginResponse_json rfc3339 r)"

text \<open>Every key that occurs in a JSON document, at any depth.\<close>

fun json_keys :: "json \<Rightarrow> string set" where
  "json_keys (JArray xs) = (\<Union>x \<in> set xs. json_keys x)"
| "json_keys (JObject m) = fst ` set m \<union> (\<Union>kv \<in> set m. json_keys (snd kv))"
| "json_keys v = {}"

section \<open>Unified notification provider\<close>

text \<open>
  The provider holds an email adapter and an SMS adapter. A vendor call is a state
  transformer on the outside world \<open>'w\<close>; the world also carries the clock. The fields
  an email request leaves unset hold their zero values.
\<close>

record EmailAttachment =
  Filename :: string
  Content :: string
  MimeType :: string

record EmailRequest =
  To :: "string list"
  CC :: "string list"
  BCC :: "string list"
  Subject :: string
  Body :: string
  BodyHTML :: string
  Attachments :: "EmailAttachment list"
  Metadata :: "(string \<times> json) list"

record EmailResponse =
  er_ID :: string
  er_Status :: string
  er_SentAt :: time
  er_MessageID :: string

record SMSRequest =
  sms_To :: string
  sms_Message :: string
  sms_From :: string

record SMSResponse =
  sr_ID :: string
  sr_Status :: string
  sr_SentAt :: time
  sr_MessageID :: string

record 'w UnifiedNotificationProvider =
  emailProvider_SendEmail :: "EmailRequest \<Rightarrow> 'w \<Rightarrow> (error + EmailResponse) \<times> 'w"
  smsProvider_SendSMS :: "SMSRequest \<Rightarrow> 'w \<Rightarrow> (error + SMSResponse) \<times> 'w"
  time_Now :: "'w \<Rightarrow> time"

definition Unified_SendEmail ::
  "'w UnifiedNotificationProvider \<Rightarrow> EmailRequest \<Rightarrow> 'w \<Rightarrow> (error + EmailResponse) \<times> 'w" where
  "Unified_SendEmail u req w = emailProvider_SendEmail u req w"

definition Unified_SendSMS ::
  "'w UnifiedNotificationProvider \<Rightarrow> SMSRequest \<Rightarrow> 'w \<Rightarrow> (error + SMSResponse) \<times> 'w" where
  "Unified_SendSMS u req w = smsProvider_SendSMS u req w"

definition Unified_SendPushNotification ::
  "'w UnifiedNotificationProvider \<Rightarrow> PushNotificationRequest \<Rightarrow> 'w
     \<Rightarrow> (error + PushNotificationResponse) \<times> 'w" where
  "Unified_SendPushNotification u req w =
     (Inr \<lparr>pnr_ID = ''mock-push-id'', pnr_Status = ''not_implemented'',
           pnr_SentAt = time_Now u w, SuccessCount = 0,
           FailureCount = int (length (DeviceTokens req))\<rparr>, w)"

section \<open>Payment and order entities\<close>

record PaymentRequest =
  preq_OrderID :: string
  preq_Amount :: real
  preq_Currency :: string
  preq_Description :: string
  preq_CustomerID :: string
  preq_Metadata :: "(string \<times> json) list"

record PaymentResponse =
  pay_ID :: string
  pay_Status :: string
  pay_Amount :: real
  pay_Currency :: string
  pay_TransactionID :: string
  pay_CreatedAt :: time
  pay_Metadata :: "(string \<times> json) list option"

record RefundResponse =
  ref_ID :: string
  ref_PaymentID :: string
  ref_Amount :: real
  ref_Status :: string
  ref_CreatedAt :: time

record PaymentStatus =
  ps_ID :: string
  ps_Status :: string
  ps_Amount :: real
  ps_UpdatedAt :: time

record PaymentIntentRequest =
  pir_Amount :: real
  pir_Currency :: string
  pir_CustomerID :: string
  pir_Description :: string

record PaymentIntent =
  pi_ID :: string
  pi_ClientSecret :: string
  pi_Status :: string

record CreateOrderRequest =
  OrderID :: string
  UserID :: int
  Amount :: real
  Currency :: string
  UserEmail :: string

record OrderResponse =
  or_OrderID :: string
  or_PaymentID :: string
  or_PaymentIntentID :: string
  or_Status :: string
  or_Amount :: real
  or_Currency :: string
  or_ProcessedAt :: time
  or_User :: User

record RefundOrderRequest =
  ror_PaymentID :: string
  ror_UserID :: int
  ror_Reason :: string

section \<open>Capability interfaces and the user repository\<close>

text \<open>
  An interface is the record of its methods. A method that reaches a collaborator (the
  database, a vendor) transforms the outside world \<open>'w\<close> and returns either an error or
  a value, as the Go signature \<^verbatim>\<open>(*T, error)\<close> does.
\<close>

record 'w UserRepository =
  GetByID :: "int \<Rightarrow> 'w \<Rightarrow> (error + User) \<times> 'w"

record 'w PaymentProvider =
  ProcessPayment :: "PaymentRequest \<Rightarrow> 'w \<Rightarrow> (error + PaymentResponse) \<times> 'w"
  RefundPayment :: "string \<Rightarrow> 'w \<Rightarrow> (error + RefundResponse) \<times> 'w"
  GetPaymentStatus :: "string \<Rightarrow> 'w \<Rightarrow> (error + PaymentStatus) \<times> 'w"
  CreatePaymentIntent :: "PaymentIntentRequest \<Rightarrow> 'w \<Rightarrow> (error + PaymentIntent) \<times> 'w"

record 'w NotificationProvider =
  SendEmail :: "EmailRequest \<Rightarrow> 'w \<Rightarrow> (error + EmailResponse) \<times> 'w"
  SendSMS :: "SMSRequest \<Rightarrow> 'w \<Rightarrow> (error + SMSResponse) \<times> 'w"
  SendPushNotification ::
    "PushNotificationRequest \<Rightarrow> 'w \<Rightarrow> (error + PushNotificationResponse) \<times> 'w"

definition NewUnifiedNotificationProvider ::
  "'w UnifiedNotificationProvider \<Rightarrow> 'w NotificationProvider" where
  "NewUnifiedNotificationProvider u =
     \<lparr>SendEmail = Unified_SendEmail u, SendSMS = Unified_SendSMS u,
      SendPushNotification = Unified_SendPushNotification u\<rparr>"

text \<open>
  \<^verbatim>\<open>userRepositoryImpl.GetByID\<close>. The query
  \<^verbatim>\<open>SELECT ... FROM users WHERE id = $1\<close> followed by \<^verbatim>\<open>Scan\<close> is an operation of the
  database handle: it yields the row, or \<^verbatim>\<open>sql.ErrNoRows\<close> when no row has that id, or
  another error.
\<close>

record 'w PostgresDB =
  QueryRow_users_by_id :: "int \<Rightarrow> 'w \<Rightarrow> (error + User) \<times> 'w"

definition userRepositoryImpl_GetByID ::
  "'w PostgresDB \<Rightarrow> int \<Rightarrow> 'w \<Rightarrow> (error + User) \<times> 'w" where
  "userRepositoryImpl_GetByID db uid w =
     (case QueryRow_users_by_id db uid w of
        (Inl err, w') \<Rightarrow>
          if err = SqlErrNoRows then (Inl ErrUserNotFound, w')
          else (Inl (Wrapf ''failed to get user by id'' err), w')
      | (Inr user, w') \<Rightarrow> (Inr user, w'))"

definition NewUserRepository :: "'w PostgresDB \<Rightarrow> 'w UserRepository" where
  "NewUserRepository db = \<lparr>GetByID = userRepositoryImpl_GetByID db\<rparr>"

section \<open>Order use case (\<^verbatim>\<open>internal/usecase/order\<close>)\<close>

record 'w OrderUsecase =
  userRepo :: "'w UserRepository"
  paymentProvider :: "'w PaymentProvider"
  notificationProvider :: "'w NotificationProvider"
  clock :: "'w \<Rightarrow> time"

text \<open>
  Besides its three collaborators the use case reads the clock (\<^verbatim>\<open>time.Now\<close>), which
  is a function of the world.

  What one request does is observed through an execution state: the outside world, the
  calls made on the capabilities so far (in order), and the goroutines started by a
  \<^verbatim>\<open>go\<close> statement. A \<^verbatim>\<open>go\<close> statement only records the goroutine with its
  arguments; the caller goes on without running it. The goroutine's body is run by
  \<open>run_goroutine\<close>, at any later point and on whatever the world is then.
\<close>

datatype call =
    CallGetByID int
  | CallCreatePaymentIntent PaymentIntentRequest
  | CallProcessPayment PaymentRequest
  | CallRefundPayment string
  | CallGetPaymentStatus string
  | CallSendEmail EmailRequest

datatype goroutine =
    GoSendOrderConfirmationNotification User string string real
  | GoSendPaymentFailureNotification User string error
  | GoSendRefundNotification User string string

record 'w exec =
  world :: 'w
  calls :: "call list"
  spawned :: "goroutine list"

definition go :: "goroutine \<Rightarrow> 'w exec \<Rightarrow> 'w exec" where
  "go g s = s\<lparr>spawned := spawned s @ [g]\<rparr>"

definition call_GetByID ::
  "'w OrderUsecase \<Rightarrow> int \<Rightarrow> 'w exec \<Rightarrow> (error + User) \<times> 'w exec" where
  "call_GetByID u uid s =
     (case GetByID (userRepo u) uid (world s) of
        (r, w') \<Rightarrow> (r, s\<lparr>world := w', calls := calls s @ [CallGetByID uid]\<rparr>))"

definition call_CreatePaymentIntent ::
  "'w OrderUsecase \<Rightarrow> PaymentIntentRequest \<Rightarrow> 'w exec \<Rightarrow> (error + PaymentIntent) \<times> 'w exec" where
  "call_CreatePaymentIntent u req s =
     (case CreatePaymentIntent (paymentProvider u) req (world s) of
        (r, w') \<Rightarrow> (r, s\<lparr>world := w', calls := calls s @ [CallCreatePaymentIntent req]\<rparr>))"

definition call_ProcessPayment ::
  "'w OrderUsecase \<Rightarrow> PaymentRequest \<Rightarrow> 'w exec \<Rightarrow> (error + PaymentResponse) \<times> 'w exec" where
  "call_ProcessPayment u req s =
     (case ProcessPayment (paymentProvider u) req (world s) of
        (r, w') \<Rightarrow> (r, s\<lparr>world := w', calls := calls s @ [CallProcessPayment req]\<rparr>))"

definition call_RefundPayment ::
  "'w OrderUsecase \<Rightarrow> string \<Rightarrow> 'w exec \<Rightarrow> (error + RefundResponse) \<times> 'w exec" where
  "call_RefundPayment u paymentID s =
     (case RefundPayment (paymentProvider u) paymentID (world s) of
        (r, w') \<Rightarrow> (r, s\<lparr>world := w', calls := calls s @ [CallRefundPayment paymentID]\<rparr>))"

definition call_GetPaymentStatus ::
  "'w OrderUsecase \<Rightarrow> string \<Rightarrow> 'w exec \<Rightarrow> (error + PaymentStatus) \<times> 'w exec" where
  "call_GetPaymentStatus u paymentID s =
     (case GetPaymentStatus (paymentProvider u) paymentID (world s) of
        (r, w') \<Rightarrow> (r, s\<lparr>world := w', calls := calls s @ [CallGetPaymentStatus paymentID]\<rparr>))"

definition call_SendEmail ::
  "'w OrderUsecase \<Rightarrow> EmailRequest \<Rightarrow> 'w exec \<Rightarrow> (error + EmailResponse) \<times> 'w exec" where
  "call_SendEmail u req s =
     (case SendEmail (notificationProvider u) req (world s) of
        (r, w') \<Rightarrow> (r, s\<lparr>world := w', calls := calls s @ [CallSendEmail req]\<rparr>))"

text \<open>The two requests \<^verbatim>\<open>ProcessOrder\<close> builds for the payment provider.\<close>

definition paymentIntentReq :: "CreateOrderRequest \<Rightarrow> User \<Rightarrow> PaymentIntentRequest" where
  "paymentIntentReq req user =
     \<lparr>pir_Amount = Amount req, pir_Currency = Currency req,
      pir_CustomerID = itoa (ID user),
      pir_Description = ''Order for user '' @ Username user\<rparr>"

definition paymentReq :: "CreateOrderRequest \<Rightarrow> User \<Rightarrow> PaymentRequest" where
  "paymentReq req user =
     \<lparr>preq_OrderID = OrderID req, preq_Amount = Amount req, preq_Currency = Currency req,
      preq_Description = ''Order '' @ OrderID req @ '' for '' @ Username user,
      preq_CustomerID = itoa (ID user),
      preq_Metadata =
        [(''user_id'', JNumber (of_int (ID user))),
         (''username'', JString (Username user)),
         (''order_id'', JString (OrderID req))]\<rparr>"

definition ProcessOrder ::
  "'w OrderUsecase \<Rightarrow> CreateOrderRequest \<Rightarrow> 'w exec \<Rightarrow> (error + OrderResponse) \<times> 'w exec" where
  "ProcessOrder u req s =
     (case call_GetByID u (UserID req) s of
        (Inl err, s1) \<Rightarrow>
          if IsUserNotFound err then (Inl (Wrapf ''user not found'' err), s1)
          else (Inl (Wrapf ''failed to get user'' err), s1)
      | (Inr user, s1) \<Rightarrow>
          (case call_CreatePaymentIntent u (paymentIntentReq req user) s1 of
             (Inl err, s2) \<Rightarrow> (Inl (Wrapf ''failed to create payment intent'' err), s2)
           | (Inr paymentIntent, s2) \<Rightarrow>
               (case call_ProcessPayment u (paymentReq req user) s2 of
                  (Inl err, s3) \<Rightarrow>
                    (Inl (Wrapf ''payment processing failed'' err),
                     go (GoSendPaymentFailureNotification user (OrderID req) err) s3)
                | (Inr payment, s3) \<Rightarrow>
                    (let s4 = go (GoSendOrderConfirmationNotification user (OrderID req)
                                    (pay_ID payment) (Amount req)) s3
                     in (Inr \<lparr>or_OrderID = OrderID req, or_PaymentID = pay_ID payment,
                               or_PaymentIntentID = pi_ID paymentIntent,
                               or_Status = ''completed'', or_Amount = Amount req,
                               or_Currency = Currency req,
                               or_ProcessedAt = clock u (world s4), or_User = user\<rparr>, s4)))))"

definition OrderUsecase_GetPaymentStatus ::
  "'w OrderUsecase \<Rightarrow> string \<Rightarrow> 'w exec \<Rightarrow> (error + PaymentStatus) \<times> 'w exec" where
  "OrderUsecase_GetPaymentStatus u paymentID s =
     (case call_GetPaymentStatus u paymentID s of
        (Inl err, s1) \<Rightarrow> (Inl (Wrapf ''failed to get payment status'' err), s1)
      | (Inr status, s1) \<Rightarrow> (Inr status, s1))"

definition RefundOrder ::
  "'w OrderUsecase \<Rightarrow> RefundOrderRequest \<Rightarrow> 'w exec \<Rightarrow> (error + RefundResponse) \<times> 'w exec" where
  "RefundOrder u req s =
     (case call_GetByID u (ror_UserID req) s of
        (Inl err, s1) \<Rightarrow> (Inl (Wrapf ''failed to get user'' err), s1)
      | (Inr user, s1) \<Rightarrow>
          (case call_RefundPayment u (ror_PaymentID req) s1 of
             (Inl err, s2) \<Rightarrow> (Inl (Wrapf ''refund processing failed'' err), s2)
           | (Inr refund, s2) \<Rightarrow>
               (Inr refund,
                go (GoSendRefundNotification user (ror_PaymentID req) (ref_ID refund)) s2)))"

subsection \<open>The notification goroutines\<close>

text \<open>
  \<^verbatim>\<open>%.2f\<close>: two decimals, the value rounded to the nearest hundredth, a tie to the
  even neighbour.
\<close>

definition sprintf_2f :: "real \<Rightarrow> string" where
  "sprintf_2f x =
     (let c = round_half_even (\<bar>x\<bar> * 100)
      in (if x < 0 then ''-'' else []) @ itoa (c div 100) @ ''.''
           @ digits (nat (c mod 100 div 10)) @ digits (nat (c mod 10)))"

definition nl :: string where
  "nl = [CHR 0x0A]"

definition tab :: string where
  "tab = [CHR 0x09]"

definition orderConfirmationEmail :: "User \<Rightarrow> string \<Rightarrow> string \<Rightarrow> real \<Rightarrow> EmailRequest" where
  "orderConfirmationEmail user orderID paymentID amount =
     \<lparr>To = [Email user], CC = [], BCC = [], Subject = ''Order Confirmation'',
      Body = nl @ ''Hello '' @ Username user @ '','' @ nl @ nl
        @ ''Your order has been confirmed!'' @ nl @ nl
        @ ''Order Details:'' @ nl
        @ ''- Order ID: '' @ orderID @ nl
        @ ''- Payment ID: '' @ paymentID @ nl
        @ ''- Amount: $'' @ sprintf_2f amount @ nl
        @ ''- Status: Completed'' @ nl @ nl
        @ ''Thank you for your business!'' @ nl @ nl
        @ ''Best regards,'' @ nl @ ''Boilerplate Team'' @ nl @ tab @ tab,
      BodyHTML = [], Attachments = [],
      Metadata =
        [(''user_id'', JNumber (of_int (ID user))), (''order_id'', JString orderID),
         (''payment_id'', JString paymentID), (''type'', JString ''order_confirmation'')]\<rparr>"

definition paymentFailureEmail :: "User \<Rightarrow> string \<Rightarrow> error \<Rightarrow> EmailRequest" where
  "paymentFailureEmail user orderID paymentErr =
     \<lparr>To = [Email user], CC = [], BCC = [], Subject = ''Payment Failed'',
      Body = nl @ ''Hello '' @ Username user @ '','' @ nl @ nl
        @ ''We encountered an issue processing your payment for order '' @ orderID @ ''.''
        @ nl @ nl
        @ ''Please try again or contact our support team.'' @ nl @ nl
        @ ''Error: '' @ Error paymentErr @ nl @ nl
        @ ''Best regards,'' @ nl @ ''Boilerplate Team'' @ nl @ tab @ tab,
      BodyHTML = [], Attachments = [],
      Metadata =
        [(''user_id'', JNumber (of_int (ID user))), (''order_id'', JString orderID),
         (''type'', JString ''payment_failure'')]\<rparr>"

definition refundEmail :: "User \<Rightarrow> string \<Rightarrow> string \<Rightarrow> EmailRequest" where
  "refundEmail user paymentID refundID =
     \<lparr>To = [Email user], CC = [], BCC = [], Subject = ''Refund Processed'',
      Body = nl @ ''Hello '' @ Username user @ '','' @ nl @ nl
        @ ''Your refund has been processed successfully.'' @ nl @ nl
        @ ''Refund Details:'' @ nl
        @ ''- Original Payment ID: '' @ paymentID @ nl
        @ ''- Refund ID: '' @ refundID @ nl @ nl
        @ ''The refund will appear in your account within 3-5 business days.'' @ nl @ nl
        @ ''Best regards,'' @ nl @ ''Boilerplate Team'' @ nl @ tab @ tab,
      BodyHTML = [], Attachments = [],
      Metadata =
        [(''user_id'', JNumber (of_int (ID user))), (''payment_id'', JString paymentID),
         (''refund_id'', JString refundID), (''type'', JString ''refund_confirmation'')]\<rparr>"

text \<open>
  Each goroutine sends one email and, when the send fails, only logs the error: the
  result of the send is dropped.
\<close>

definition sendOrderConfirmationNotification ::
  "'w OrderUsecase \<Rightarrow> User \<Rightarrow> string \<Rightarrow> string \<Rightarrow> real \<Rightarrow> 'w exec \<Rightarrow> 'w exec" where
  "sendOrderConfirmationNotification u user orderID paymentID amount s =
     snd (call_SendEmail u (orderConfirmationEmail user orderID paymentID amount) s)"

definition sendPaymentFailureNotification ::
  "'w OrderUsecase \<Rightarrow> User \<Rightarrow> string \<Rightarrow> error \<Rightarrow> 'w exec \<Rightarrow> 'w exec" where
  "sendPaymentFailureNotification u user orderID paymentErr s =
     snd (call_SendEmail u (paymentFailureEmail user orderID paymentErr) s)"

definition sendRefundNotification ::
  "'w OrderUsecase \<Rightarrow> User \<Rightarrow> string \<Rightarrow> string \<Rightarrow> 'w exec \<Rightarrow> 'w exec" where
  "sendRefundNotification u user paymentID refundID s =
     snd (call_SendEmail u (refundEmail user paymentID refundID) s)"

fun run_goroutine :: "'w OrderUsecase \<Rightarrow> goroutine \<Rightarrow> 'w exec \<Rightarrow> 'w exec" where
  "run_goroutine u (GoSendOrderConfirmationNotification user orderID paymentID amount) s =
     sendOrderConfirmationNotification u user orderID paymentID amount s"
| "run_goroutine u (GoSendPaymentFailureNotification user orderID paymentErr) s =
     sendPaymentFailureNotification u user orderID paymentErr s"
| "run_goroutine u (GoSendRefundNotification user paymentID refundID) s =
     sendRefundNotification u user paymentID refundID s"

fun run_goroutines :: "'w OrderUsecase \<Rightarrow> goroutine list \<Rightarrow> 'w exec \<Rightarrow> 'w exec" where
  "run_goroutines u [] s = s"
| "run_goroutines u (g # gs) s = run_goroutines u gs (run_goroutine u g s)"

text \<open>
  One whole request: the handler's call on a fresh execution state, followed by the
  goroutines the call started.
\<close>

definition start :: "'w \<Rightarrow> 'w exec" where
  "start w = \<lparr>world = w, calls = [], spawned = []\<rparr>"

definition ProcessOrder_request ::
  "'w OrderUsecase \<Rightarrow> CreateOrderRequest \<Rightarrow> 'w \<Rightarrow> (error + OrderResponse) \<times> 'w exec" where
  "ProcessOrder_request u req w =
     (case ProcessOrder u req (start w) of (r, s) \<Rightarrow> (r, run_goroutines u (spawned s) s))"

definition RefundOrder_request ::
  "'w OrderUsecase \<Rightarrow> RefundOrderRequest \<Rightarrow> 'w \<Rightarrow> (error + RefundResponse) \<times> 'w exec" where
  "RefundOrder_request u req w =
     (case RefundOrder u req (start w) of (r, s) \<Rightarrow> (r, run_goroutines u (spawned s) s))"

text \<open>The vendor operations of the workflows, and how often a log attempts one.\<close>

datatype operation =
  UserLookup | IntentCreation | Charge | Refund | StatusFetch | NotificationSend

fun operation_of :: "call \<Rightarrow> operation" where
  "operation_of (CallGetByID uid) = UserLookup"
| "operation_of (CallCreatePaymentIntent req) = IntentCreation"
| "operation_of (CallProcessPayment req) = Charge"
| "operation_of (CallRefundPayment paymentID) = Refund"
| "operation_of (CallGetPaymentStatus paymentID) = StatusFetch"
| "operation_of (CallSendEmail req) = NotificationSend"

definition attempts :: "operation \<Rightarrow> call list \<Rightarrow> nat" where
  "attempts op cs = length (filter (\<lambda>c. operation_of c = op) cs)"

fun is_failure_notification :: "goroutine \<Rightarrow> bool" where
  "is_failure_notification (GoSendPaymentFailureNotification user orderID paymentErr) = True"
| "is_failure_notification g = False"

section \<open>Payment adapters (\<^verbatim>\<open>internal/provider/payment\<close>)\<close>

subsection \<open>HTTP\<close>

text \<open>
  A request carries a method, a URL, headers and a body. \<^verbatim>\<open>json.Marshal\<close> of the maps
  built by the adapters does not fail, and the URL is the configured base URL followed by
  a fixed path and is taken to be well formed, so that \<^verbatim>\<open>http.NewRequestWithContext\<close>
  returns a request: the error returns after these two calls are not branches of the
  model. A body handed to \<^verbatim>\<open>json.Marshal\<close> is kept as the JSON value it encodes.

  Of a response the adapters read the status code and the outcome of decoding the body
  into a \<^verbatim>\<open>map[string]interface{}\<close>: an error, or the decoded object (the JSON text
  \<^verbatim>\<open>null\<close> decodes to the empty map).
\<close>

datatype http_body = NoBody | JsonBody json | FormBody string

record http_request =
  Method :: string
  URL :: string
  Header :: "(string \<times> string) list"
  req_Body :: http_body

datatype decoded = DecodeError error | Decoded "(string \<times> json) list"

record http_response =
  StatusCode :: int
  resp_Body :: decoded

text \<open>\<^verbatim>\<open>Header.Set\<close>: the key takes the value, replacing what it had.\<close>

definition Header_Set ::
  "string \<Rightarrow> string \<Rightarrow> (string \<times> string) list \<Rightarrow> (string \<times> string) list" where
  "Header_Set k v h = filter (\<lambda>kv. fst kv \<noteq> k) h @ [(k, v)]"

text \<open>
  What the adapters take from the runtime: the HTTP client's \<^verbatim>\<open>Do\<close> (a transport error
  or a response, and a changed world), the clock, the Base64 encoder behind
  \<^verbatim>\<open>SetBasicAuth\<close>, and \<^verbatim>\<open>fmt.Sscanf\<close> with the verb \<^verbatim>\<open>%f\<close>, which yields the number
  read or leaves the zero it was given.
\<close>

record 'w runtime =
  Do :: "http_request \<Rightarrow> 'w \<Rightarrow> (error + http_response) \<times> 'w"
  Now :: "'w \<Rightarrow> time"
  base64 :: "string \<Rightarrow> string"
  Sscanf_f :: "string \<Rightarrow> real option"

text \<open>The world together with the requests sent so far, in order.\<close>

record 'w io =
  io_world :: 'w
  sent :: "http_request list"

definition http_Do ::
  "'w runtime \<Rightarrow> http_request \<Rightarrow> 'w io \<Rightarrow> (error + http_response) \<times> 'w io" where
  "http_Do rt r io =
     (case Do rt r (io_world io) of
        (res, w') \<Rightarrow> (res, \<lparr>io_world = w', sent = sent io @ [r]\<rparr>))"

subsection \<open>Stripe\<close>

record StripeProvider =
  st_baseURL :: string
  st_apiKey :: string

definition Stripe_setHeaders :: "StripeProvider \<Rightarrow> (string \<times> string) list" where
  "Stripe_setHeaders s =
     Header_Set ''User-Agent'' ''boilerplate-go/1.0''
       (Header_Set ''Content-Type'' ''application/json''
          (Header_Set ''Authorization'' (''Bearer '' @ st_apiKey s) []))"

definition Stripe_handleError :: "error \<Rightarrow> string \<Rightarrow> error" where
  "Stripe_handleError err operation = Wrapf (''stripe '' @ operation) err"

text \<open>
  The fields of the composite literal are evaluated in the order written, so the first
  failing assertion is the one that panics. \<^verbatim>\<open>metadata\<close> is read with the two-value
  form and is optional.
\<close>

definition Stripe_parsePaymentResponse :: "http_response \<Rightarrow> (error + PaymentResponse) outcome" where
  "Stripe_parsePaymentResponse resp =
     (case resp_Body resp of
        DecodeError err \<Rightarrow> Return (Inl (Stripe_handleError err ''parse_response_failed''))
      | Decoded stripeResp \<Rightarrow>
          if StatusCode resp \<noteq> 200
          then Return (Inl (Stripe_handleError
                 (Errorf (''stripe API error: '' @ itoa (StatusCode resp))) ''api_error''))
          else
            bind (assert_string (index stripeResp ''id'')) (\<lambda>id'.
            bind (assert_string (index stripeResp ''status'')) (\<lambda>status.
            bind (assert_float64 (index stripeResp ''amount'')) (\<lambda>amount.
            bind (assert_string (index stripeResp ''currency'')) (\<lambda>currency.
            bind (assert_string (index stripeResp ''balance_transaction'')) (\<lambda>txn.
            bind (assert_float64 (index stripeResp ''created'')) (\<lambda>created.
              Return (Inr \<lparr>pay_ID = id', pay_Status = status,
                           pay_Amount = float64_div amount 100,
                           pay_Currency = currency, pay_TransactionID = txn,
                           pay_CreatedAt = go_int created * Second,
                           pay_Metadata =
                             (case index stripeResp ''metadata'' of
                                JObject metadata \<Rightarrow> Some metadata
                              | _ \<Rightarrow> None)\<rparr>))))))))"

definition stripeReq :: "PaymentRequest \<Rightarrow> (string \<times> json) list" where
  "stripeReq req =
     [(''amount'', JNumber (of_int (go_int (float64_mul (preq_Amount req) 100)))),
      (''currency'', JString (preq_Currency req)),
      (''description'', JString (preq_Description req)),
      (''metadata'', JObject (preq_Metadata req))]
     @ (if preq_CustomerID req \<noteq> [] then [(''customer'', JString (preq_CustomerID req))]
        else [])"

definition Stripe_charge_request :: "StripeProvider \<Rightarrow> PaymentRequest \<Rightarrow> http_request" where
  "Stripe_charge_request s req =
     \<lparr>Method = ''POST'', URL = st_baseURL s @ ''/charges'',
      Header = Stripe_setHeaders s, req_Body = JsonBody (JObject (stripeReq req))\<rparr>"

text \<open>The \<^verbatim>\<open>amount\<close> field of the JSON body a request carries.\<close>

definition sent_amount :: "http_request \<Rightarrow> json" where
  "sent_amount r =
     (case req_Body r of JsonBody (JObject m) \<Rightarrow> index m ''amount'' | _ \<Rightarrow> JNull)"

definition Stripe_ProcessPayment ::
  "'w runtime \<Rightarrow> StripeProvider \<Rightarrow> PaymentRequest \<Rightarrow> 'w io
     \<Rightarrow> (error + PaymentResponse) outcome \<times> 'w io" where
  "Stripe_ProcessPayment rt s req io =
     (case http_Do rt (Stripe_charge_request s req) io of
        (Inl err, io1) \<Rightarrow> (Return (Inl (Stripe_handleError err ''api_call_failed'')), io1)
      | (Inr resp, io1) \<Rightarrow> (Stripe_parsePaymentResponse resp, io1))"

subsection \<open>PayPal\<close>

text \<open>
  The provider keeps the cached access token and its expiry in its own fields, which
  \<^verbatim>\<open>refreshAccessToken\<close> overwrites: every method takes the provider and returns it.
  The lifetime \<^verbatim>\<open>time.Duration(expiresIn-60) * time.Second\<close> is computed in \<^verbatim>\<open>int64\<close>,
  with wrap-around.
\<close>

record PayPalProvider =
  pp_baseURL :: string
  clientID :: string
  clientSecret :: string
  accessToken :: string
  tokenExpiry :: time


definition PayPal_handleError :: "error \<Rightarrow> string \<Rightarrow> error" where
  "PayPal_handleError err operation = Wrapf (''paypal '' @ operation) err"

definition parseFloat :: "'w runtime \<Rightarrow> string \<Rightarrow> real" where
  "parseFloat rt s = (case Sscanf_f rt s of None \<Rightarrow> 0 | Some f \<Rightarrow> f)"

definition token_request :: "'w runtime \<Rightarrow> PayPalProvider \<Rightarrow> http_request" where
  "token_request rt p =
     \<lparr>Method = ''POST'', URL = pp_baseURL p @ ''/v1/oauth2/token'',
      Header =
        Header_Set ''Authorization''
          (''Basic '' @ base64 rt (clientID p @ '':'' @ clientSecret p))
          (Header_Set ''Content-Type'' ''application/x-www-form-urlencoded'' []),
      req_Body = FormBody ''grant_type=client_credentials''\<rparr>"

text \<open>
  \<^verbatim>\<open>refreshAccessToken\<close> does not look at the status code. The token is stored before
  \<^verbatim>\<open>expires_in\<close> is asserted, so a panic on the second assertion leaves the new token
  with the old expiry.
\<close>

definition refreshAccessToken ::
  "'w runtime \<Rightarrow> PayPalProvider \<Rightarrow> 'w io \<Rightarrow> error option outcome \<times> PayPalProvider \<times> 'w io" where
  "refreshAccessToken rt p io =
     (case http_Do rt (token_request rt p) io of
        (Inl err, io1) \<Rightarrow> (Return (Some err), p, io1)
      | (Inr resp, io1) \<Rightarrow>
          (case resp_Body resp of
             DecodeError err \<Rightarrow> (Return (Some err), p, io1)
           | Decoded tokenResp \<Rightarrow>
               (case assert_string (index tokenResp ''access_token'') of
                  Panic x \<Rightarrow> (Panic x, p, io1)
                | Return token \<Rightarrow>
                    (case assert_float64 (index tokenResp ''expires_in'') of
                       Panic x \<Rightarrow> (Panic x, p\<lparr>accessToken := token\<rparr>, io1)
                     | Return expires_in \<Rightarrow>
                         (Return None,
                          p\<lparr>accessToken := token,
                            tokenExpiry :=
                              Now rt (io_world io1)
                                + wrap64 (wrap64 (go_int expires_in - 60) * Second)\<rparr>,
                          io1)))))"

definition ensureValidToken ::
  "'w runtime \<Rightarrow> PayPalProvider \<Rightarrow> 'w io \<Rightarrow> error option outcome \<times> PayPalProvider \<times> 'w io" where
  "ensureValidToken rt p io =
     (if accessToken p \<noteq> [] \<and> Now rt (io_world io) < tokenExpiry p
      then (Return None, p, io)
      else refreshAccessToken rt p io)"


definition PayPal_parseCaptureResponse ::
  "'w runtime \<Rightarrow> 'w \<Rightarrow> http_response \<Rightarrow> (error + PaymentResponse) outcome" where
  "PayPal_parseCaptureResponse rt w resp =
     (case resp_Body resp of
        DecodeError err \<Rightarrow>
          Return (Inl (PayPal_handleError err ''parse_capture_response_failed''))
      | Decoded paypalResp \<Rightarrow>
          if StatusCode resp \<noteq> 201
          then Return (Inl (PayPal_handleError
                 (Errorf (''paypal API error: '' @ itoa (StatusCode resp))) ''api_error''))
          else
            bind (assert_slice (index paypalResp ''purchase_units'')) (\<lambda>purchaseUnits.
            bind (first_elem purchaseUnits) (\<lambda>unit0.
            bind (assert_map unit0) (\<lambda>firstUnit.
            bind (assert_map (index firstUnit ''payments'')) (\<lambda>payments.
            bind (assert_slice (index payments ''captures'')) (\<lambda>captures.
            bind (first_elem captures) (\<lambda>capture0.
            bind (assert_map capture0) (\<lambda>capture.
            bind (assert_map (index capture ''amount'')) (\<lambda>amount.
            bind (assert_string (index capture ''id'')) (\<lambda>id'.
            bind (assert_string (index capture ''status'')) (\<lambda>status.
            bind (assert_string (index amount ''value'')) (\<lambda>v.
            bind (assert_string (index amount ''currency_code'')) (\<lambda>currency.
            bind (assert_string (index paypalResp ''id'')) (\<lambda>txn.
              Return (Inr \<lparr>pay_ID = id', pay_Status = status,
                           pay_Amount = parseFloat rt v, pay_Currency = currency,
                           pay_TransactionID = txn, pay_CreatedAt = Now rt w,
                           pay_Metadata = None\<rparr>)))))))))))))))"



















subsection \<open>Well-formed vendor responses\<close>

text \<open>
  The fields the two parsers assert, with the types they assert: for the Stripe charge
  the six keys of the decoded object, for the PayPal capture the path through the first
  purchase unit and its first capture.
\<close>

fun is_string :: "json \<Rightarrow> bool" where
  "is_string (JString s) = True"
| "is_string v = False"

fun is_float64 :: "json \<Rightarrow> bool" where
  "is_float64 (JNumber x) = True"
| "is_float64 v = False"

definition charge_fields_ok :: "(string \<times> json) list \<Rightarrow> bool" where
  "charge_fields_ok m =
     (is_string (index m ''id'') \<and> is_string (index m ''status'')
      \<and> is_float64 (index m ''amount'') \<and> is_string (index m ''currency'')
      \<and> is_string (index m ''balance_transaction'') \<and> is_float64 (index m ''created''))"

definition capture_ok :: "(string \<times> json) list \<Rightarrow> bool" where
  "capture_ok capture =
     (case index capture ''amount'' of
        JObject amount \<Rightarrow>
          is_string (index capture ''id'') \<and> is_string (index capture ''status'')
          \<and> is_string (index amount ''value'') \<and> is_string (index amount ''currency_code'')
      | _ \<Rightarrow> False)"

text \<open>The \<^verbatim>\<open>captures\<close> array of the first purchase unit, when the path to it exists.\<close>

definition captures_of :: "(string \<times> json) list \<Rightarrow> json list option" where
  "captures_of m =
     (case index m ''purchase_units'' of
        JArray (JObject firstUnit # units) \<Rightarrow>
          (case index firstUnit ''payments'' of
             JObject payments \<Rightarrow>
               (case index payments ''captures'' of
                  JArray captures \<Rightarrow> Some captures
                | _ \<Rightarrow> None)
           | _ \<Rightarrow> None)
      | _ \<Rightarrow> None)"

definition capture_fields_ok :: "(string \<times> json) list \<Rightarrow> bool" where
  "capture_fields_ok m =
     (case captures_of m of
        Some (JObject capture # captures) \<Rightarrow> capture_ok capture \<and> is_string (index m ''id'')
      | _ \<Rightarrow> False)"

text \<open>An array on the path is present but has no element.\<close>

definition capture_array_empty :: "(string \<times> json) list \<Rightarrow> bool" where
  "capture_array_empty m =
     (index m ''purchase_units'' = JArray [] \<or> captures_of m = Some [])"

section \<open>Test doubles\<close>

text \<open>
  Collaborators with fixed behaviour, on which the theorems are run. The world of the
  order doubles counts the calls made so far. The user store holds one user, with id 1.
\<close>

definition alice :: User where
  "alice = \<lparr>ID = 1, Username = ''alice'', Email = ''alice@example.com'',
            Password = ''$2a$10$hash'', CreatedAt = 0, UpdatedAt = 0\<rparr>"

definition one_user_db :: "nat PostgresDB" where
  "one_user_db =
     \<lparr>QueryRow_users_by_id =
        (\<lambda>uid w. if uid = 1 then (Inr alice, Suc w) else (Inl SqlErrNoRows, Suc w))\<rparr>"

definition fake_payment :: "bool \<Rightarrow> bool \<Rightarrow> nat PaymentProvider" where
  "fake_payment intent_ok charge_ok =
     \<lparr>ProcessPayment =
        (\<lambda>req w. if charge_ok
           then (Inr \<lparr>pay_ID = ''ch_1'', pay_Status = ''succeeded'',
                       pay_Amount = preq_Amount req, pay_Currency = preq_Currency req,
                       pay_TransactionID = ''txn_1'', pay_CreatedAt = 0,
                       pay_Metadata = None\<rparr>, Suc w)
           else (Inl (Errorf ''card declined''), Suc w)),
      RefundPayment =
        (\<lambda>paymentID w. (Inr \<lparr>ref_ID = ''re_1'', ref_PaymentID = paymentID, ref_Amount = 0,
                               ref_Status = ''succeeded'', ref_CreatedAt = 0\<rparr>, Suc w)),
      GetPaymentStatus =
        (\<lambda>paymentID w. (Inr \<lparr>ps_ID = paymentID, ps_Status = ''succeeded'', ps_Amount = 0,
                               ps_UpdatedAt = 0\<rparr>, Suc w)),
      CreatePaymentIntent =
        (\<lambda>req w. if intent_ok
           then (Inr \<lparr>pi_ID = ''pi_1'', pi_ClientSecret = ''secret'',
                       pi_Status = ''requires_payment_method''\<rparr>, Suc w)
           else (Inl (Errorf ''intent rejected''), Suc w))\<rparr>"

text \<open>An email adapter whose vendor is down, behind the unified provider.\<close>

definition failing_notification :: "nat NotificationProvider" where
  "failing_notification =
     NewUnifiedNotificationProvider
       \<lparr>emailProvider_SendEmail = (\<lambda>req w. (Inl (Errorf ''smtp down''), Suc w)),
        smsProvider_SendSMS = (\<lambda>req w. (Inl (Errorf ''sms down''), Suc w)),
        time_Now = int\<rparr>"

definition fake_usecase :: "bool \<Rightarrow> bool \<Rightarrow> nat OrderUsecase" where
  "fake_usecase intent_ok charge_ok =
     \<lparr>userRepo = NewUserRepository one_user_db,
      paymentProvider = fake_payment intent_ok charge_ok,
      notificationProvider = failing_notification,
      clock = int\<rparr>"

definition order_42 :: CreateOrderRequest where
  "order_42 = \<lparr>OrderID = ''order-42'', UserID = 1, Amount = 25 / 2, Currency = ''usd'',
               UserEmail = ''alice@example.com''\<rparr>"

text \<open>
  A Stripe vendor that accepts every charge and echoes the amount it was sent. The
  world counts the requests.
\<close>

definition echo_charge :: "http_request \<Rightarrow> http_response" where
  "echo_charge r =
     \<lparr>StatusCode = 200,
      resp_Body = Decoded
        [(''id'', JString ''ch_1''), (''status'', JString ''succeeded''),
         (''amount'', sent_amount r), (''currency'', JString ''usd''),
         (''balance_transaction'', JString ''txn_1''), (''created'', JNumber 1700000000)]\<rparr>"

definition stripe_sandbox :: "nat runtime" where
  "stripe_sandbox =
     \<lparr>Do = (\<lambda>r w. (Inr (echo_charge r), Suc w)), Now = int,
      base64 = (\<lambda>s. s), Sscanf_f = (\<lambda>s. None)\<rparr>"

definition stripe_test :: StripeProvider where
  "stripe_test = \<lparr>st_baseURL = ''https://api.stripe.com/v1'', st_apiKey = ''sk_test''\<rparr>"

definition charge_of :: "real \<Rightarrow> PaymentRequest" where
  "charge_of a =
     \<lparr>preq_OrderID = ''order-42'', preq_Amount = a, preq_Currency = ''usd'',
      preq_Description = ''Order order-42 for alice'', preq_CustomerID = ''1'',
      preq_Metadata = []\<rparr>"

text \<open>
  A PayPal vendor whose token endpoint always issues the token \<open>tok\<close> with
  \<^verbatim>\<open>expires_in = 3600\<close>. The world is the reading of the clock.
\<close>

definition paypal_sandbox :: "string \<Rightarrow> int runtime" where
  "paypal_sandbox tok =
     \<lparr>Do = (\<lambda>r w.
        if URL r = ''https://api.sandbox.paypal.com/v1/oauth2/token''
        then (Inr \<lparr>StatusCode = 200,
                    resp_Body = Decoded [(''access_token'', JString tok),
                                         (''expires_in'', JNumber 3600)]\<rparr>, w)
        else (Inr \<lparr>StatusCode = 200,
                    resp_Body = Decoded [(''id'', JString ''CAP-1''),
                                         (''status'', JString ''COMPLETED''),
                                         (''amount'', JObject [(''value'', JString ''12.50'')])]\<rparr>,
              w)),
      Now = (\<lambda>w. w), base64 = (\<lambda>s. s), Sscanf_f = (\<lambda>s. None)\<rparr>"



section \<open>Properties\<close>

lemma marshal_User_fields:
  "marshal_fields (User_fields rfc3339 u) =
     [(''id'', JNumber (of_int (ID u))), (''username'', JString (Username u)),
      (''email'', JString (Email u)), (''created_at'', JString (rfc3339 (CreatedAt u))),
      (''updated_at'', JString (rfc3339 (UpdatedAt u)))]"
  by (simp add: User_fields_def)

text \<open>
  C9. For every push-notification request the unified provider returns a response, never
  an error; the response counts zero successes and as many failures as the request has
  device tokens; and the outside world is left as it was, so no vendor was called.
\<close>

theorem Unified_SendPushNotification_stub:
  "\<exists>r. Unified_SendPushNotification u req w = (Inr r, w)
       \<and> SuccessCount r = 0
       \<and> FailureCount r = int (length (DeviceTokens req))"
  by (simp add: Unified_SendPushNotification_def)

text \<open>
  C10. For every user, the JSON written for that user by itself, inside the profile
  response and inside the login response has the keys \<open>id\<close>, \<open>username\<close> and \<open>email\<close>
  with the user's values, has no key for the password at any depth, and is the same
  document whatever the password field holds.
\<close>

theorem User_json_omits_password:
  "User_json rfc3339 (u\<lparr>Password := p\<rparr>) = User_json rfc3339 u
   \<and> GetProfile_body rfc3339 (u\<lparr>Password := p\<rparr>) = GetProfile_body rfc3339 u
   \<and> Login_body rfc3339 \<lparr>lr_Token = t, lr_User = u\<lparr>Password := p\<rparr>\<rparr>
       = Login_body rfc3339 \<lparr>lr_Token = t, lr_User = u\<rparr>
   \<and> json_keys (User_json rfc3339 u) = {''id'', ''username'', ''email'', ''created_at'', ''updated_at''}
   \<and> ''password'' \<notin> json_keys (GetProfile_body rfc3339 u)
   \<and> ''Password'' \<notin> json_keys (GetProfile_body rfc3339 u)
   \<and> ''password'' \<notin> json_keys (Login_body rfc3339 \<lparr>lr_Token = t, lr_User = u\<rparr>)
   \<and> ''Password'' \<notin> json_keys (Login_body rfc3339 \<lparr>lr_Token = t, lr_User = u\<rparr>)
   \<and> (\<exists>m. User_json rfc3339 u = JObject m
          \<and> map_of m ''id'' = Some (JNumber (of_int (ID u)))
          \<and> map_of m ''username'' = Some (JString (Username u))
          \<and> map_of m ''email'' = Some (JString (Email u)))"
  by (simp add: User_json_def GetProfile_body_def Login_body_def LoginResponse_json_def
      Success_json_def marshal_struct_def marshal_User_fields insert_commute)

subsection \<open>Order workflow\<close>

lemmas call_defs =
  call_GetByID_def call_CreatePaymentIntent_def call_ProcessPayment_def
  call_RefundPayment_def call_SendEmail_def

lemmas fake_defs =
  fake_usecase_def fake_payment_def one_user_db_def failing_notification_def
  NewUserRepository_def userRepositoryImpl_GetByID_def NewUnifiedNotificationProvider_def
  Unified_SendEmail_def order_42_def start_def

lemma ProcessOrder_request_operations:
  "map operation_of (calls (snd (ProcessOrder_request u req w))) \<in>
     {[UserLookup], [UserLookup, IntentCreation],
      [UserLookup, IntentCreation, Charge, NotificationSend]}"
  by (simp add: ProcessOrder_request_def ProcessOrder_def call_defs go_def Let_def start_def
      sendPaymentFailureNotification_def sendOrderConfirmationNotification_def
      split: prod.splits sum.splits)

lemma RefundOrder_request_operations:
  "map operation_of (calls (snd (RefundOrder_request u req w))) \<in>
     {[UserLookup], [UserLookup, Refund], [UserLookup, Refund, NotificationSend]}"
  by (simp add: RefundOrder_request_def RefundOrder_def call_defs go_def start_def
      sendRefundNotification_def split: prod.splits sum.splits)

lemma attempts_map:
  "attempts op cs = length (filter (\<lambda>x. x = op) (map operation_of cs))"
  by (simp add: attempts_def filter_map comp_def)

text \<open>
  C2. When the user lookup and the creation of the payment intent succeed and
  \<^verbatim>\<open>ProcessPayment\<close> returns an error, \<^verbatim>\<open>ProcessOrder\<close> returns an error that wraps it,
  after exactly the three calls, and has started exactly one more goroutine, the
  payment-failure notification, which is still pending when the caller has its result.
  The result and the state are the same whatever the notification provider is, so they
  do not depend on how the dispatch ends. The goroutine, whenever it runs, sends the
  payment-failure email once and starts nothing else.
\<close>

theorem ProcessOrder_charge_failure:
  assumes "GetByID (userRepo u) (UserID req) (world s) = (Inr user, w1)"
    and "CreatePaymentIntent (paymentProvider u) (paymentIntentReq req user) w1 = (Inr intent, w2)"
    and "ProcessPayment (paymentProvider u) (paymentReq req user) w2 = (Inl e, w3)"
  shows "ProcessOrder u req s =
      (Inl (Wrapf ''payment processing failed'' e),
       \<lparr>world = w3,
        calls = calls s @ [CallGetByID (UserID req),
                           CallCreatePaymentIntent (paymentIntentReq req user),
                           CallProcessPayment (paymentReq req user)],
        spawned = spawned s @ [GoSendPaymentFailureNotification user (OrderID req) e]\<rparr>)
    \<and> ProcessOrder (u\<lparr>notificationProvider := np\<rparr>) req s = ProcessOrder u req s
    \<and> calls (run_goroutine u (GoSendPaymentFailureNotification user (OrderID req) e) s') =
        calls s' @ [CallSendEmail (paymentFailureEmail user (OrderID req) e)]
    \<and> spawned (run_goroutine u (GoSendPaymentFailureNotification user (OrderID req) e) s') =
        spawned s'"
  using assms
  by (simp add: ProcessOrder_def call_defs go_def sendPaymentFailureNotification_def
      split: prod.splits)

theorem ProcessOrder_charge_failure_witness:
  "ProcessOrder (fake_usecase True False) order_42 (start 0) =
      (Inl (Wrapf ''payment processing failed'' (Errorf ''card declined'')),
       \<lparr>world = 3,
        calls = [CallGetByID 1, CallCreatePaymentIntent (paymentIntentReq order_42 alice),
                 CallProcessPayment (paymentReq order_42 alice)],
        spawned = [GoSendPaymentFailureNotification alice ''order-42''
                     (Errorf ''card declined'')]\<rparr>)
   \<and> calls (run_goroutine (fake_usecase True False)
               (GoSendPaymentFailureNotification alice ''order-42'' (Errorf ''card declined''))
               (start 3)) =
       [CallSendEmail (paymentFailureEmail alice ''order-42'' (Errorf ''card declined''))]"
proof -
  have lookup: "GetByID (userRepo (fake_usecase True False)) (UserID order_42)
      (world (start 0)) = (Inr alice, 1)"
    by (simp add: fake_defs)
  have intent: "CreatePaymentIntent (paymentProvider (fake_usecase True False))
      (paymentIntentReq order_42 alice) 1 =
      (Inr \<lparr>pi_ID = ''pi_1'', pi_ClientSecret = ''secret'',
            pi_Status = ''requires_payment_method''\<rparr>, 2)"
    by (simp add: fake_defs)
  have charge: "ProcessPayment (paymentProvider (fake_usecase True False))
      (paymentReq order_42 alice) 2 = (Inl (Errorf ''card declined''), 3)"
    by (simp add: fake_defs)
  show ?thesis
    using ProcessOrder_charge_failure [OF lookup intent charge, of _ "start 3"]
    by (simp add: start_def order_42_def)
qed

text \<open>
  C3. When the user exists and the payment provider's calls succeed, \<^verbatim>\<open>ProcessOrder\<close>
  returns an order response with status \<open>completed\<close> that carries the request's order
  id, amount and currency, the payment id, the payment-intent id and the user; the one
  goroutine it starts is the order confirmation, not the payment-failure notification,
  and running it sends the confirmation email.
\<close>

theorem ProcessOrder_completed:
  assumes "GetByID (userRepo u) (UserID req) (world s) = (Inr user, w1)"
    and "CreatePaymentIntent (paymentProvider u) (paymentIntentReq req user) w1 = (Inr intent, w2)"
    and "ProcessPayment (paymentProvider u) (paymentReq req user) w2 = (Inr payment, w3)"
  shows "ProcessOrder u req s =
      (Inr \<lparr>or_OrderID = OrderID req, or_PaymentID = pay_ID payment,
            or_PaymentIntentID = pi_ID intent, or_Status = ''completed'',
            or_Amount = Amount req, or_Currency = Currency req,
            or_ProcessedAt = clock u w3, or_User = user\<rparr>,
       \<lparr>world = w3,
        calls = calls s @ [CallGetByID (UserID req),
                           CallCreatePaymentIntent (paymentIntentReq req user),
                           CallProcessPayment (paymentReq req user)],
        spawned = spawned s @ [GoSendOrderConfirmationNotification user (OrderID req)
                                 (pay_ID payment) (Amount req)]\<rparr>)
    \<and> \<not> is_failure_notification
          (GoSendOrderConfirmationNotification user (OrderID req) (pay_ID payment) (Amount req))
    \<and> calls (run_goroutine u (GoSendOrderConfirmationNotification user (OrderID req)
                (pay_ID payment) (Amount req)) s') =
        calls s' @ [CallSendEmail (orderConfirmationEmail user (OrderID req)
                      (pay_ID payment) (Amount req))]"
  using assms
  by (simp add: ProcessOrder_def call_defs go_def Let_def
      sendOrderConfirmationNotification_def split: prod.splits)

theorem ProcessOrder_completed_witness:
  "ProcessOrder (fake_usecase True True) order_42 (start 0) =
      (Inr \<lparr>or_OrderID = ''order-42'', or_PaymentID = ''ch_1'', or_PaymentIntentID = ''pi_1'',
            or_Status = ''completed'', or_Amount = 25 / 2, or_Currency = ''usd'',
            or_ProcessedAt = 3, or_User = alice\<rparr>,
       \<lparr>world = 3,
        calls = [CallGetByID 1, CallCreatePaymentIntent (paymentIntentReq order_42 alice),
                 CallProcessPayment (paymentReq order_42 alice)],
        spawned = [GoSendOrderConfirmationNotification alice ''order-42'' ''ch_1'' (25 / 2)]\<rparr>)"
proof -
  have lookup: "GetByID (userRepo (fake_usecase True True)) (UserID order_42)
      (world (start 0)) = (Inr alice, 1)"
    by (simp add: fake_defs)
  have intent: "CreatePaymentIntent (paymentProvider (fake_usecase True True))
      (paymentIntentReq order_42 alice) 1 =
      (Inr \<lparr>pi_ID = ''pi_1'', pi_ClientSecret = ''secret'',
            pi_Status = ''requires_payment_method''\<rparr>, 2)"
    by (simp add: fake_defs)
  have charge: "ProcessPayment (paymentProvider (fake_usecase True True))
      (paymentReq order_42 alice) 2 =
      (Inr \<lparr>pay_ID = ''ch_1'', pay_Status = ''succeeded'', pay_Amount = 25 / 2,
            pay_Currency = ''usd'', pay_TransactionID = ''txn_1'', pay_CreatedAt = 0,
            pay_Metadata = None\<rparr>, 3)"
    by (simp add: fake_defs paymentReq_def)
  show ?thesis
    using ProcessOrder_completed [OF lookup intent charge]
    by (simp add: start_def order_42_def fake_usecase_def)
qed

text \<open>
  C5. When the user lookup succeeds and \<^verbatim>\<open>CreatePaymentIntent\<close> returns an error,
  \<^verbatim>\<open>ProcessOrder\<close> returns an error that wraps it after exactly two calls, the lookup and
  the intent: \<^verbatim>\<open>ProcessPayment\<close> is not called, no email is sent and no goroutine is
  started.
\<close>

theorem ProcessOrder_intent_failure:
  assumes "GetByID (userRepo u) (UserID req) (world s) = (Inr user, w1)"
    and "CreatePaymentIntent (paymentProvider u) (paymentIntentReq req user) w1 = (Inl e, w2)"
  shows "ProcessOrder u req s =
      (Inl (Wrapf ''failed to create payment intent'' e),
       \<lparr>world = w2,
        calls = calls s @ [CallGetByID (UserID req),
                           CallCreatePaymentIntent (paymentIntentReq req user)],
        spawned = spawned s\<rparr>)
    \<and> attempts Charge (calls (snd (ProcessOrder u req s))) = attempts Charge (calls s)
    \<and> attempts NotificationSend (calls (snd (ProcessOrder u req s))) =
        attempts NotificationSend (calls s)
    \<and> spawned (snd (ProcessOrder u req s)) = spawned s"
proof -
  have eq: "ProcessOrder u req s =
      (Inl (Wrapf ''failed to create payment intent'' e),
       \<lparr>world = w2,
        calls = calls s @ [CallGetByID (UserID req),
                           CallCreatePaymentIntent (paymentIntentReq req user)],
        spawned = spawned s\<rparr>)"
    using assms by (simp add: ProcessOrder_def call_defs)
  show ?thesis
    unfolding eq by (simp add: attempts_def)
qed

theorem ProcessOrder_intent_failure_witness:
  "ProcessOrder (fake_usecase False True) order_42 (start 0) =
      (Inl (Wrapf ''failed to create payment intent'' (Errorf ''intent rejected'')),
       \<lparr>world = 2,
        calls = [CallGetByID 1, CallCreatePaymentIntent (paymentIntentReq order_42 alice)],
        spawned = []\<rparr>)"
proof -
  have lookup: "GetByID (userRepo (fake_usecase False True)) (UserID order_42)
      (world (start 0)) = (Inr alice, 1)"
    by (simp add: fake_defs)
  have intent: "CreatePaymentIntent (paymentProvider (fake_usecase False True))
      (paymentIntentReq order_42 alice) 1 = (Inl (Errorf ''intent rejected''), 2)"
    by (simp add: fake_defs)
  show ?thesis
    using ProcessOrder_intent_failure [OF lookup intent]
    by (simp add: start_def order_42_def)
qed

text \<open>
  C6. When the query for the refund request's user id finds no row, the repository
  returns \<^verbatim>\<open>ErrUserNotFound\<close> and \<^verbatim>\<open>RefundOrder\<close> returns an error that wraps it, which
  \<^verbatim>\<open>errors.Is\<close> recognises as user-not-found; the only call made is the lookup:
  \<^verbatim>\<open>RefundPayment\<close> is not called and no goroutine is started.
\<close>

theorem RefundOrder_user_not_found:
  assumes "userRepo u = NewUserRepository db"
    and "QueryRow_users_by_id db (ror_UserID req) (world s) = (Inl SqlErrNoRows, w1)"
  shows "RefundOrder u req s =
      (Inl (Wrapf ''failed to get user'' ErrUserNotFound),
       \<lparr>world = w1, calls = calls s @ [CallGetByID (ror_UserID req)], spawned = spawned s\<rparr>)
    \<and> IsUserNotFound (Wrapf ''failed to get user'' ErrUserNotFound)
    \<and> attempts Refund (calls (snd (RefundOrder u req s))) = attempts Refund (calls s)"
proof -
  have eq: "RefundOrder u req s =
      (Inl (Wrapf ''failed to get user'' ErrUserNotFound),
       \<lparr>world = w1, calls = calls s @ [CallGetByID (ror_UserID req)], spawned = spawned s\<rparr>)"
    using assms
    by (simp add: RefundOrder_def call_defs NewUserRepository_def
        userRepositoryImpl_GetByID_def)
  show ?thesis
    unfolding eq by (simp add: attempts_def)
qed

theorem RefundOrder_user_not_found_witness:
  "RefundOrder (fake_usecase True True)
      \<lparr>ror_PaymentID = ''ch_1'', ror_UserID = 7, ror_Reason = ''duplicate''\<rparr> (start 0) =
      (Inl (Wrapf ''failed to get user'' ErrUserNotFound),
       \<lparr>world = 1, calls = [CallGetByID 7], spawned = []\<rparr>)"
proof -
  have repo: "userRepo (fake_usecase True True) = NewUserRepository one_user_db"
    by (simp add: fake_usecase_def)
  have norow: "QueryRow_users_by_id one_user_db
      (ror_UserID \<lparr>ror_PaymentID = ''ch_1'', ror_UserID = 7, ror_Reason = ''duplicate''\<rparr>)
      (world (start 0)) = (Inl SqlErrNoRows, 1)"
    by (simp add: one_user_db_def start_def)
  show ?thesis
    using RefundOrder_user_not_found [OF repo norow]
    by (simp add: start_def)
qed

text \<open>
  C7. In one whole order request and in one whole refund request, goroutines included,
  each operation (user lookup, intent creation, charge, refund, notification send) is
  attempted at most once, whatever the collaborators answer.
\<close>

theorem every_operation_at_most_once:
  "attempts op (calls (snd (ProcessOrder_request u req w))) \<le> 1
   \<and> attempts op (calls (snd (RefundOrder_request u rreq w))) \<le> 1"
proof
  show "attempts op (calls (snd (ProcessOrder_request u req w))) \<le> 1"
    using ProcessOrder_request_operations [of u req w]
    unfolding attempts_map by (cases op) auto
  show "attempts op (calls (snd (RefundOrder_request u rreq w))) \<le> 1"
    using RefundOrder_request_operations [of u rreq w]
    unfolding attempts_map by (cases op) auto
qed

subsection \<open>Vendor responses\<close>

lemma bind_assert_string:
  "bind (assert_string v) f = (if is_string v then f (string_of v) else Panic TypeAssertionPanic)"
  by (cases v) simp_all

lemma bind_assert_float64:
  "bind (assert_float64 v) f = (if is_float64 v then f (number_of v) else Panic TypeAssertionPanic)"
  by (cases v) simp_all

lemma bind_assert_map:
  "bind (assert_map v) f = (case v of JObject m \<Rightarrow> f m | _ \<Rightarrow> Panic TypeAssertionPanic)"
  by (cases v) simp_all

lemma bind_assert_slice:
  "bind (assert_slice v) f = (case v of JArray xs \<Rightarrow> f xs | _ \<Rightarrow> Panic TypeAssertionPanic)"
  by (cases v) simp_all

lemma bind_first_elem:
  "bind (first_elem xs) f = (case xs of [] \<Rightarrow> Panic IndexOutOfRangePanic | x # ys \<Rightarrow> f x)"
  by (cases xs) simp_all

lemmas bind_asserts =
  bind_assert_string bind_assert_float64 bind_assert_map bind_assert_slice bind_first_elem

lemma Stripe_parse_malformed:
  assumes "StatusCode resp = 200" and "resp_Body resp = Decoded m" and "\<not> charge_fields_ok m"
  shows "Stripe_parsePaymentResponse resp = Panic TypeAssertionPanic"
  using assms
  by (simp add: Stripe_parsePaymentResponse_def charge_fields_ok_def bind_asserts)

lemma Stripe_parse_well_formed:
  assumes "StatusCode resp = 200" and "resp_Body resp = Decoded m" and "charge_fields_ok m"
  shows "\<exists>r. Stripe_parsePaymentResponse resp = Return (Inr r)"
  using assms
  by (simp add: Stripe_parsePaymentResponse_def charge_fields_ok_def bind_asserts)

lemma PayPal_parse_malformed:
  assumes "StatusCode resp = 201" and "resp_Body resp = Decoded m"
  shows "\<not> capture_fields_ok m \<longrightarrow> PayPal_parseCaptureResponse rt w resp =
    Panic (if capture_array_empty m then IndexOutOfRangePanic else TypeAssertionPanic)"
  using assms
  by (simp add: PayPal_parseCaptureResponse_def capture_fields_ok_def capture_ok_def
      captures_of_def capture_array_empty_def bind_asserts
      split: json.split list.split)

lemma PayPal_parse_well_formed:
  assumes "StatusCode resp = 201" and "resp_Body resp = Decoded m"
  shows "capture_fields_ok m \<longrightarrow> (\<exists>r. PayPal_parseCaptureResponse rt w resp = Return (Inr r))"
  using assms
  by (simp add: PayPal_parseCaptureResponse_def capture_fields_ok_def capture_ok_def
      captures_of_def bind_asserts
      split: json.split list.split)

text \<open>
  C8. A response with the success status whose decoded body lacks one of the asserted
  fields, or holds it with another type, makes the parser panic and never yields an
  error value. The Stripe charge parser panics with a failed type assertion. The PayPal
  capture parser panics with a failed type assertion too, except when
  \<^verbatim>\<open>purchase_units\<close> or \<^verbatim>\<open>captures\<close> is an array without elements, where it panics
  with an index out of range. A body that has every asserted field is parsed into a
  response.
\<close>

theorem malformed_response_panics:
  "(StatusCode resp = 200 \<and> resp_Body resp = Decoded m \<and> \<not> charge_fields_ok m \<longrightarrow>
      Stripe_parsePaymentResponse resp = Panic TypeAssertionPanic)
   \<and> (StatusCode resp' = 201 \<and> resp_Body resp' = Decoded m' \<and> \<not> capture_fields_ok m' \<longrightarrow>
      PayPal_parseCaptureResponse rt w resp' =
        Panic (if capture_array_empty m' then IndexOutOfRangePanic else TypeAssertionPanic))
   \<and> (StatusCode resp = 200 \<and> resp_Body resp = Decoded m \<and> charge_fields_ok m \<longrightarrow>
      (\<exists>r. Stripe_parsePaymentResponse resp = Return (Inr r)))
   \<and> (StatusCode resp' = 201 \<and> resp_Body resp' = Decoded m' \<and> capture_fields_ok m' \<longrightarrow>
      (\<exists>r. PayPal_parseCaptureResponse rt w resp' = Return (Inr r)))"
  using Stripe_parse_malformed [of resp m] Stripe_parse_well_formed [of resp m]
    PayPal_parse_malformed [of resp' m' rt w] PayPal_parse_well_formed [of resp' m' rt w]
  by blast

theorem malformed_response_panics_witness:
  "Stripe_parsePaymentResponse
      \<lparr>StatusCode = 200,
       resp_Body = Decoded [(''id'', JString ''ch_1''), (''status'', JNumber 1)]\<rparr> =
     Panic TypeAssertionPanic
   \<and> PayPal_parseCaptureResponse (paypal_sandbox ''A21AAF'') 0
       \<lparr>StatusCode = 201,
        resp_Body = Decoded [(''id'', JString ''O-1''),
          (''purchase_units'', JArray [JObject [(''reference_id'', JString ''order-42'')]])]\<rparr> =
     Panic TypeAssertionPanic"
  using malformed_response_panics
    [of "\<lparr>StatusCode = 200,
           resp_Body = Decoded [(''id'', JString ''ch_1''), (''status'', JNumber 1)]\<rparr>"
        "[(''id'', JString ''ch_1''), (''status'', JNumber 1)]"
        "\<lparr>StatusCode = 201,
          resp_Body = Decoded [(''id'', JString ''O-1''),
            (''purchase_units'', JArray [JObject [(''reference_id'', JString ''order-42'')]])]\<rparr>"
        "[(''id'', JString ''O-1''),
          (''purchase_units'', JArray [JObject [(''reference_id'', JString ''order-42'')]])]"
        "paypal_sandbox ''A21AAF''" 0]
  by (simp add: charge_fields_ok_def capture_fields_ok_def captures_of_def
      capture_array_empty_def index_def)

text \<open>
  A capture response with status 201 that has no \<^verbatim>\<open>id\<close> and an empty
  \<^verbatim>\<open>purchase_units\<close> array: the parser panics on \<^verbatim>\<open>purchaseUnits[0]\<close>, which is not a
  failed type assertion.
\<close>

theorem capture_index_panic_counterexample:
  "index [(''purchase_units'', JArray [])] ''id'' = JNull
   \<and> PayPal_parseCaptureResponse (paypal_sandbox ''A21AAF'') 0
       \<lparr>StatusCode = 201, resp_Body = Decoded [(''purchase_units'', JArray [])]\<rparr> =
     Panic IndexOutOfRangePanic
   \<and> PayPal_parseCaptureResponse (paypal_sandbox ''A21AAF'') 0
       \<lparr>StatusCode = 201, resp_Body = Decoded [(''purchase_units'', JArray [])]\<rparr> \<noteq>
     Panic TypeAssertionPanic"
  by (simp add: PayPal_parseCaptureResponse_def index_def)

subsection \<open>PayPal access token\<close>

lemma go_int_of_int: "- (2 ^ 63) \<le> k \<Longrightarrow> k < 2 ^ 63 \<Longrightarrow> go_int (of_int k) = k"
  by (simp add: go_int_def)

















text \<open>
  The provider's state without a token: with the empty string in \<^verbatim>\<open>accessToken\<close> a call
  sends a token request whatever the expiry is.
\<close>

lemma ensureValidToken_without_token:
  "accessToken p = [] \<Longrightarrow> ensureValidToken rt p io = refreshAccessToken rt p io"
  by (simp add: ensureValidToken_def)

subsection \<open>Stripe amounts\<close>

lemmas f64_eval =
  float64_mul_def float64_div_def float64_round_def ilog2_def pow2_def
  round_half_even_def Let_def compute_floorlog

lemma float64_99_99:
  "float64_mul (7036170730324623 / 70368744177664) 100 = 9999"
  "float64_div 9999 100 = 7036170730324623 / 70368744177664"
  by (simp_all add: f64_eval)

lemma float64_129_128:
  "float64_mul (129 / 128) 100 = 3225 / 32" "float64_div 100 100 = 1"
  by (simp_all add: f64_eval)

lemma float64_0_29:
  "float64_div 29 100 = 5224175567749775 / 18014398509481984"
  "float64_mul (5224175567749775 / 18014398509481984) 100
     = 8162774324609023 / 281474976710656"
  "float64_div 28 100 = 1261007895663739 / 4503599627370496"
  by (simp_all add: f64_eval)

lemma float64_1e20:
  "float64_mul 100000000000000000000 100 = 10000000000000000000000"
  by (simp add: f64_eval)

lemmas stripe_eval =
  Stripe_ProcessPayment_def Stripe_charge_request_def stripeReq_def http_Do_def
  stripe_sandbox_def stripe_test_def charge_of_def echo_charge_def sent_amount_def
  Stripe_parsePaymentResponse_def index_def go_int_def Second_def

text \<open>
  What the adapter does with the amount, for any request answered with status 200 by a
  vendor that echoes the amount it was sent: the integer sent is the \<^verbatim>\<open>float64\<close> product
  of the amount and 100, truncated, and the amount returned is that integer divided by
  100 in \<^verbatim>\<open>float64\<close>.
\<close>

lemma Stripe_ProcessPayment_echo:
  assumes "Do rt (Stripe_charge_request s req) (io_world io) = (Inr resp, w')"
    and "StatusCode resp = 200" and "resp_Body resp = Decoded m" and "charge_fields_ok m"
    and "index m ''amount'' = sent_amount (Stripe_charge_request s req)"
  shows "sent_amount (Stripe_charge_request s req) =
       JNumber (of_int (go_int (float64_mul (preq_Amount req) 100)))
    \<and> (\<exists>r. Stripe_ProcessPayment rt s req io =
          (Return (Inr r), \<lparr>io_world = w', sent = sent io @ [Stripe_charge_request s req]\<rparr>)
        \<and> pay_Amount r =
            float64_div (of_int (go_int (float64_mul (preq_Amount req) 100))) 100)"
proof -
  have wire: "sent_amount (Stripe_charge_request s req) =
      JNumber (of_int (go_int (float64_mul (preq_Amount req) 100)))"
    by (simp add: sent_amount_def Stripe_charge_request_def stripeReq_def index_def)
  have parsed: "\<exists>r. Stripe_parsePaymentResponse resp = Return (Inr r)
      \<and> pay_Amount r = float64_div (number_of (index m ''amount'')) 100"
    using assms(2-4)
    by (simp add: Stripe_parsePaymentResponse_def charge_fields_ok_def bind_asserts)
  then obtain r where r: "Stripe_parsePaymentResponse resp = Return (Inr r)"
    "pay_Amount r = float64_div (number_of (index m ''amount'')) 100"
    by blast
  have run: "Stripe_ProcessPayment rt s req io =
      (Return (Inr r), \<lparr>io_world = w', sent = sent io @ [Stripe_charge_request s req]\<rparr>)"
    using assms(1) r(1) by (simp add: Stripe_ProcessPayment_def http_Do_def)
  have amount: "pay_Amount r =
      float64_div (of_int (go_int (float64_mul (preq_Amount req) 100))) 100"
    using r(2) assms(5) wire by simp
  show ?thesis
    using wire run amount by auto
qed

text \<open>
  Where the round trip holds: the \<^verbatim>\<open>float64\<close> product of the amount with 100 is a whole
  number \<open>k\<close> in the range of \<^verbatim>\<open>int\<close>, and the amount is the \<^verbatim>\<open>float64\<close> nearest to
  \<open>k / 100\<close>. The amount 99.99 is of that kind, with \<open>k = 9999\<close>.
\<close>

lemma Stripe_round_trip_whole_product:
  assumes "float64_mul (preq_Amount req) 100 = of_int k"
    and "- (2 ^ 63) \<le> k" and "k < 2 ^ 63"
    and "float64_div (of_int k) 100 = preq_Amount req"
    and "Do rt (Stripe_charge_request s req) (io_world io) = (Inr resp, w')"
    and "StatusCode resp = 200" and "resp_Body resp = Decoded m" and "charge_fields_ok m"
    and "index m ''amount'' = sent_amount (Stripe_charge_request s req)"
  shows "sent_amount (Stripe_charge_request s req) = JNumber (of_int k)
    \<and> (\<exists>r. Stripe_ProcessPayment rt s req io =
          (Return (Inr r), \<lparr>io_world = w', sent = sent io @ [Stripe_charge_request s req]\<rparr>)
        \<and> pay_Amount r = preq_Amount req)"
  using Stripe_ProcessPayment_echo [OF assms(5-9)] assms(1-4)
  by (simp add: go_int_of_int)

lemma Stripe_99_99:
  "Stripe_ProcessPayment stripe_sandbox stripe_test
       (charge_of (7036170730324623 / 70368744177664)) \<lparr>io_world = 0, sent = []\<rparr> =
     (Return (Inr \<lparr>pay_ID = ''ch_1'', pay_Status = ''succeeded'',
                   pay_Amount = 7036170730324623 / 70368744177664,
                   pay_Currency = ''usd'', pay_TransactionID = ''txn_1'',
                   pay_CreatedAt = 1700000000 * Second, pay_Metadata = None\<rparr>),
      \<lparr>io_world = 1,
       sent = [Stripe_charge_request stripe_test
                 (charge_of (7036170730324623 / 70368744177664))]\<rparr>)
   \<and> sent_amount (Stripe_charge_request stripe_test
        (charge_of (7036170730324623 / 70368744177664))) = JNumber 9999"
  by (simp add: stripe_eval float64_99_99)

text \<open>
  An amount with a fraction of a cent cannot come back from whole cents. 1.0078125 is a
  \<^verbatim>\<open>float64\<close>, its product with 100 is the \<^verbatim>\<open>float64\<close> 100.78125, the integer sent is
  100 and the amount returned is 1.
\<close>

lemma Stripe_fraction_of_a_cent:
  "Stripe_ProcessPayment stripe_sandbox stripe_test (charge_of (129 / 128))
       \<lparr>io_world = 0, sent = []\<rparr> =
     (Return (Inr \<lparr>pay_ID = ''ch_1'', pay_Status = ''succeeded'', pay_Amount = 1,
                   pay_Currency = ''usd'', pay_TransactionID = ''txn_1'',
                   pay_CreatedAt = 1700000000 * Second, pay_Metadata = None\<rparr>),
      \<lparr>io_world = 1, sent = [Stripe_charge_request stripe_test (charge_of (129 / 128))]\<rparr>)
   \<and> sent_amount (Stripe_charge_request stripe_test (charge_of (129 / 128))) = JNumber 100"
  by (simp add: stripe_eval float64_129_128)

text \<open>
  An amount whose product with 100 is not an \<^verbatim>\<open>int\<close>: for the amount \<open>10 ^ 20\<close> the
  product is \<open>10 ^ 22\<close> and the integer sent is the smallest \<^verbatim>\<open>int64\<close>.
\<close>

lemma Stripe_amount_out_of_range:
  "sent_amount (Stripe_charge_request stripe_test (charge_of 100000000000000000000)) =
     JNumber (- 9223372036854775808)"
  by (simp add: sent_amount_def Stripe_charge_request_def stripeReq_def index_def
      charge_of_def float64_1e20 go_int_def)

text \<open>
  C1. The property claimed is that every request with a positive amount sends the amount
  times 100 as an integer of minor units and gets its own amount back from a vendor that
  echoes that integer. The adapter does not do that for 29 cents. The amount 0.29 of a
  request is the \<^verbatim>\<open>float64\<close> nearest to \<open>29 / 100\<close>. Its \<^verbatim>\<open>float64\<close> product with 100 is
  28.999999999999996, which \<^verbatim>\<open>int\<close> truncates: the adapter sends 28, not 29, and from a
  vendor that answers 200 and echoes 28 it returns the \<^verbatim>\<open>float64\<close> nearest to
  \<open>28 / 100\<close>, which is not the amount of the request.
\<close>

theorem Stripe_twenty_nine_cents:
  "float64_div 29 100 = 5224175567749775 / 18014398509481984
   \<and> 0 < preq_Amount (charge_of (5224175567749775 / 18014398509481984))
   \<and> sent_amount (Stripe_charge_request stripe_test
        (charge_of (5224175567749775 / 18014398509481984))) = JNumber 28
   \<and> Stripe_ProcessPayment stripe_sandbox stripe_test
       (charge_of (5224175567749775 / 18014398509481984)) \<lparr>io_world = 0, sent = []\<rparr> =
     (Return (Inr \<lparr>pay_ID = ''ch_1'', pay_Status = ''succeeded'',
                   pay_Amount = 1261007895663739 / 4503599627370496,
                   pay_Currency = ''usd'', pay_TransactionID = ''txn_1'',
                   pay_CreatedAt = 1700000000 * Second, pay_Metadata = None\<rparr>),
      \<lparr>io_world = 1,
       sent = [Stripe_charge_request stripe_test
                 (charge_of (5224175567749775 / 18014398509481984))]\<rparr>)
   \<and> (1261007895663739 / 4503599627370496 :: real)
       \<noteq> preq_Amount (charge_of (5224175567749775 / 18014398509481984))"
  by (simp add: stripe_eval float64_0_29)

end
